theory Spec2Isabelle
  imports Complex_Main "HOL-Library.Sublist"
begin

section \<open>Data model of \<^verbatim>\<open>app/backend/routes/api_keys.py\<close>\<close>

text \<open>
  The two pydantic models of the module.  \<^verbatim>\<open>details\<close> is a Python dict with string keys
  whose values are either the integer status code or a piece of text; it is kept as an
  association list in insertion order.
\<close>

record TestApiKeyRequest =
  provider :: string
  apiKey :: string
  testEndpoint :: string

datatype detail = DInt int | DStr string

record TestApiKeyResponse =
  success :: bool
  message :: string
  details :: "(string \<times> detail) list"

text \<open>
  What the handler hands to the HTTP client: \<^verbatim>\<open>client.get(url, headers=...)\<close> or
  \<^verbatim>\<open>client.post(url, headers=..., json=...)\<close>.  A call without \<^verbatim>\<open>headers=\<close> passes none.
\<close>

datatype http_method = GET | POST

datatype json = JStr string | JInt int | JArray "json list" | JObject "(string \<times> json) list"

record http_request =
  http_method :: http_method
  url :: string
  headers :: "(string \<times> string) list"
  json_body :: "json option"

text \<open>The part of the reply the handler reads: \<^verbatim>\<open>response.status_code\<close>, \<^verbatim>\<open>response.text\<close>.\<close>

record http_response =
  status_code :: int
  response_text :: string

text \<open>\<^verbatim>\<open>httpx.AsyncClient(timeout=10.0)\<close>: the only setting the handler gives the client.\<close>

record AsyncClient =
  timeout :: real

text \<open>
  The exceptions that can be in flight in this module.  \<^verbatim>\<open>RequestError\<close> stands for an
  \<^verbatim>\<open>httpx.RequestError\<close> that is not a \<^verbatim>\<open>httpx.TimeoutException\<close> (the timeout classes
  are subclasses of it, and their \<^verbatim>\<open>except\<close> clause comes first).  \<^verbatim>\<open>HTTPException\<close> is
  FastAPI's, a subclass of \<^verbatim>\<open>Exception\<close>.  \<^verbatim>\<open>NameError\<close> carries the name that was
  looked up and not found.  \<^verbatim>\<open>OtherException\<close> is any other subclass of \<^verbatim>\<open>Exception\<close>.
\<close>

datatype exn =
    HTTPException int string
  | TimeoutException string
  | RequestError string
  | NameError string
  | OtherException string

section \<open>The credential probe\<close>

text \<open>
  Lines 28--94: the \<^verbatim>\<open>if/elif\<close> chain on \<^verbatim>\<open>request.provider\<close>.  Each recognised branch
  builds one request; the \<^verbatim>\<open>else\<close> branch raises.
\<close>

definition provider_request :: "TestApiKeyRequest \<Rightarrow> exn + http_request" where
  "provider_request request =
    (if provider request = ''openai'' then
       Inr \<lparr>http_method = GET, url = ''https://api.openai.com/v1/models'',
            headers = [(''Authorization'', ''Bearer '' @ apiKey request),
                       (''Content-Type'', ''application/json'')],
            json_body = None\<rparr>
     else if provider request = ''anthropic'' then
       Inr \<lparr>http_method = POST, url = ''https://api.anthropic.com/v1/messages'',
            headers = [(''x-api-key'', apiKey request),
                       (''Content-Type'', ''application/json''),
                       (''anthropic-version'', ''2023-06-01'')],
            json_body = Some (JObject
              [(''model'', JStr ''claude-3-haiku-20240307''),
               (''max_tokens'', JInt 1),
               (''messages'', JArray [JObject [(''role'', JStr ''user''),
                                               (''content'', JStr ''Hi'')]])])\<rparr>
     else if provider request = ''groq'' then
       Inr \<lparr>http_method = GET, url = ''https://api.groq.com/openai/v1/models'',
            headers = [(''Authorization'', ''Bearer '' @ apiKey request),
                       (''Content-Type'', ''application/json'')],
            json_body = None\<rparr>
     else if provider request = ''deepseek'' then
       Inr \<lparr>http_method = GET, url = ''https://api.deepseek.com/v1/models'',
            headers = [(''Authorization'', ''Bearer '' @ apiKey request),
                       (''Content-Type'', ''application/json'')],
            json_body = None\<rparr>
     else if provider request = ''google'' then
       Inr \<lparr>http_method = GET,
            url = ''https://generativelanguage.googleapis.com/v1beta/models?key=''
                  @ apiKey request,
            headers = [],
            json_body = None\<rparr>
     else if provider request = ''financial'' then
       Inr \<lparr>http_method = GET,
            url = ''https://api.financialdatasets.ai/company/facts/?ticker=AAPL'',
            headers = [(''X-API-KEY'', apiKey request)],
            json_body = None\<rparr>
     else
       Inl (HTTPException 400 (''Unsupported provider: '' @ provider request)))"

text \<open>
  Python's \<^verbatim>\<open>str.title()\<close>: the first letter of every run of letters is put in upper
  case, the others in lower case.  Only the ASCII letters are treated as cased here; the
  call is reached with one of the six lower-case provider names only.
\<close>

definition is_lower :: "char \<Rightarrow> bool" where
  "is_lower c = (97 \<le> (of_char c :: nat) \<and> (of_char c :: nat) \<le> 122)"

definition is_upper :: "char \<Rightarrow> bool" where
  "is_upper c = (65 \<le> (of_char c :: nat) \<and> (of_char c :: nat) \<le> 90)"

definition to_upper :: "char \<Rightarrow> char" where
  "to_upper c = (if is_lower c then char_of ((of_char c :: nat) - 32) else c)"

definition to_lower :: "char \<Rightarrow> char" where
  "to_lower c = (if is_upper c then char_of ((of_char c :: nat) + 32) else c)"

fun title_from :: "bool \<Rightarrow> string \<Rightarrow> string" where
  "title_from previous_is_cased [] = []"
| "title_from previous_is_cased (c # cs) =
    (if is_lower c then
       (if previous_is_cased then c else to_upper c) # title_from True cs
     else if is_upper c then
       (if previous_is_cased then to_lower c else c) # title_from True cs
     else c # title_from False cs)"

definition title :: "string \<Rightarrow> string" where
  "title s = title_from False s"

text \<open>Lines 97--120: the classification of the reply by its status code.\<close>

definition classify :: "TestApiKeyRequest \<Rightarrow> http_response \<Rightarrow> TestApiKeyResponse" where
  "classify request response =
    (if status_code response = 200 then
       \<lparr>success = True,
        message = title (provider request) @ '' API key is valid'',
        details = [(''status_code'', DInt (status_code response))]\<rparr>
     else if status_code response = 401 then
       \<lparr>success = False,
        message = ''Invalid API key for '' @ provider request,
        details = [(''status_code'', DInt (status_code response)),
                   (''error'', DStr ''Unauthorized'')]\<rparr>
     else if status_code response = 403 then
       \<lparr>success = False,
        message = ''API key lacks required permissions for '' @ provider request,
        details = [(''status_code'', DInt (status_code response)),
                   (''error'', DStr ''Forbidden'')]\<rparr>
     else
       \<lparr>success = False,
        message = ''API test failed for '' @ provider request,
        details = [(''status_code'', DInt (status_code response)),
                   (''error'', DStr (response_text response))]\<rparr>)"

text \<open>
  Lines 122--138: the three \<^verbatim>\<open>except\<close> clauses, tried in order.  The last one,
  \<^verbatim>\<open>except Exception\<close>, takes every exception the first two leave, the
  \<^verbatim>\<open>HTTPException\<close> raised inside the \<^verbatim>\<open>try\<close> block included.  \<^verbatim>\<open>str_of\<close> is Python's
  \<^verbatim>\<open>str(e)\<close>, which each exception class of the libraries defines for itself.
\<close>

fun except_clauses ::
  "(exn \<Rightarrow> string) \<Rightarrow> TestApiKeyRequest \<Rightarrow> exn \<Rightarrow> exn + TestApiKeyResponse" where
  "except_clauses str_of request (TimeoutException m) =
     Inr \<lparr>success = False,
          message = ''Timeout testing '' @ provider request @ '' API key'',
          details = [(''error'', DStr ''Request timeout'')]\<rparr>"
| "except_clauses str_of request (RequestError m) =
     Inr \<lparr>success = False,
          message = ''Network error testing '' @ provider request @ '' API key'',
          details = [(''error'', DStr (str_of (RequestError m)))]\<rparr>"
| "except_clauses str_of request e =
     Inl (HTTPException 500 (''Unexpected error testing API key: '' @ str_of e))"

text \<open>
  The handler.  \<^verbatim>\<open>send\<close> is the network as the handler sees it: what awaiting
  \<^verbatim>\<open>client.get\<close> or \<^verbatim>\<open>client.post\<close> gives for a request, a reply or a raised exception.
  The second component of the result is the list of the calls made to the client: the
  request handed over in each, with the client it was handed to.
\<close>

definition test_api_key ::
  "(exn \<Rightarrow> string) \<Rightarrow> (AsyncClient \<Rightarrow> http_request \<Rightarrow> exn + http_response) \<Rightarrow>
   TestApiKeyRequest \<Rightarrow> (exn + TestApiKeyResponse) \<times> (AsyncClient \<times> http_request) list" where
  "test_api_key str_of send request =
    (let client = \<lparr>timeout = 10\<rparr> in
     case provider_request request of
       Inl e \<Rightarrow> (except_clauses str_of request e, [])
     | Inr q \<Rightarrow>
         (case send client q of
            Inl e \<Rightarrow> (except_clauses str_of request e, [(client, q)])
          | Inr response \<Rightarrow> (Inr (classify request response), [(client, q)])))"

text \<open>The six provider identifiers the \<^verbatim>\<open>if/elif\<close> chain compares against.\<close>

definition recognized_providers :: "string list" where
  "recognized_providers =
    [''openai'', ''anthropic'', ''groq'', ''deepseek'', ''google'', ''financial'']"

text \<open>
  The status code the web framework answers with: 200 with the serialised model when the
  handler returns, the exception's own code when it raises an \<^verbatim>\<open>HTTPException\<close>, 500 when
  any other exception leaves it.
\<close>

fun endpoint_status :: "exn + 'a \<Rightarrow> int" where
  "endpoint_status (Inr result) = 200"
| "endpoint_status (Inl (HTTPException code detail)) = code"
| "endpoint_status (Inl e) = 500"

section \<open>The credential presence report\<close>

record ProviderStatusEntry =
  configured :: bool
  required :: bool

text \<open>
  The names bound in the module's global namespace when a handler runs: the names
  imported in lines 1--5, \<^verbatim>\<open>router\<close> (line 7), the two classes and the two handlers.
\<close>

definition module_globals :: "string list" where
  "module_globals =
    [''APIRouter'', ''HTTPException'', ''BaseModel'', ''httpx'', ''Dict'', ''Any'',
     ''asyncio'', ''router'', ''TestApiKeyRequest'', ''TestApiKeyResponse'',
     ''test_api_key'', ''get_api_key_status'']"

text \<open>\<^verbatim>\<open>bool(os.getenv(name))\<close>: false for an unset variable and for the empty string.\<close>

definition getenv_bool :: "(string \<rightharpoonup> string) \<Rightarrow> string \<Rightarrow> bool" where
  "getenv_bool environ name = (case environ name of None \<Rightarrow> False | Some v \<Rightarrow> v \<noteq> [])"

text \<open>
  Lines 141--153.  The body refers to the global name \<^verbatim>\<open>os\<close>; Python looks it up when
  the first entry of the dict is evaluated and raises \<^verbatim>\<open>NameError\<close> if it is bound
  neither in the module nor among the builtins (it is not a builtin).
\<close>

definition get_api_key_status ::
  "string list \<Rightarrow> (string \<rightharpoonup> string) \<Rightarrow> exn + (string \<times> ProviderStatusEntry) list" where
  "get_api_key_status globals environ =
    (if ''os'' \<in> set globals then
       Inr [(''openai'',
               \<lparr>configured = getenv_bool environ ''OPENAI_API_KEY'', required = True\<rparr>),
            (''anthropic'',
               \<lparr>configured = getenv_bool environ ''ANTHROPIC_API_KEY'', required = False\<rparr>),
            (''groq'',
               \<lparr>configured = getenv_bool environ ''GROQ_API_KEY'', required = False\<rparr>),
            (''deepseek'',
               \<lparr>configured = getenv_bool environ ''DEEPSEEK_API_KEY'', required = False\<rparr>),
            (''google'',
               \<lparr>configured = getenv_bool environ ''GOOGLE_API_KEY'', required = False\<rparr>),
            (''financial'',
               \<lparr>configured = getenv_bool environ ''FINANCIAL_DATASETS_API_KEY'',
                required = False\<rparr>)]
     else Inl (NameError ''os''))"

section \<open>Notions used to state the properties\<close>

text \<open>
  \<^verbatim>\<open>str(e)\<close> as the libraries in use define it: Starlette's \<^verbatim>\<open>HTTPException\<close> prints its
  status code, a colon and its detail; the other exceptions print their message.
\<close>

function decimal :: "nat \<Rightarrow> string" where
  "decimal n =
    (if n < 10 then [char_of (48 + n)]
     else decimal (n div 10) @ [char_of (48 + n mod 10)])"
  by pat_completeness auto
termination
  by (relation "measure id") auto

declare decimal.simps [simp del]

definition str_int :: "int \<Rightarrow> string" where
  "str_int i = (if i < 0 then CHR ''-'' # decimal (nat (- i)) else decimal (nat i))"

fun library_str :: "exn \<Rightarrow> string" where
  "library_str (HTTPException code detail) = str_int code @ '': '' @ detail"
| "library_str (TimeoutException m) = m"
| "library_str (RequestError m) = m"
| "library_str (NameError name) = ''name '' @ [CHR 0x27] @ name @ [CHR 0x27] @ '' is not defined''"
| "library_str (OtherException m) = m"

text \<open>Upstream services used as concrete inputs.\<close>

definition url_echo_upstream :: "AsyncClient \<Rightarrow> http_request \<Rightarrow> exn + http_response" where
  "url_echo_upstream client q =
    Inr \<lparr>status_code = 404, response_text = ''Not found: '' @ url q\<rparr>"

definition fixed_upstream ::
  "exn + http_response \<Rightarrow> AsyncClient \<Rightarrow> http_request \<Rightarrow> exn + http_response" where
  "fixed_upstream outcome client q = outcome"

text \<open>
  A text appears verbatim in a result when it is a contiguous part of the message or of
  one of the values of the details.
\<close>

fun detail_text :: "detail \<Rightarrow> string" where
  "detail_text (DInt i) = str_int i"
| "detail_text (DStr s) = s"

definition appears_in :: "string \<Rightarrow> TestApiKeyResponse \<Rightarrow> bool" where
  "appears_in k res =
    (sublist k (message res) \<or> list_ex (sublist k) (map (detail_text \<circ> snd) (details res)))"

text \<open>
  The query component of a URL as a server reads it: the text between the first
  \<^verbatim>\<open>?\<close> and the first \<^verbatim>\<open>#\<close>, cut into parameters at every \<^verbatim>\<open>&\<close>, each parameter cut
  into name and value at its first \<^verbatim>\<open>=\<close>.
\<close>

fun split_on :: "char \<Rightarrow> string \<Rightarrow> string list" where
  "split_on c [] = [[]]"
| "split_on c (x # xs) =
    (if x = c then [] # split_on c xs
     else (case split_on c xs of [] \<Rightarrow> [[x]] | w # ws \<Rightarrow> (x # w) # ws))"

definition url_query :: "string \<Rightarrow> string" where
  "url_query u = drop 1 (dropWhile (\<lambda>c. c \<noteq> CHR ''?'') (takeWhile (\<lambda>c. c \<noteq> CHR ''#'') u))"

definition query_params :: "string \<Rightarrow> (string \<times> string) list" where
  "query_params u =
    map (\<lambda>p. (takeWhile (\<lambda>c. c \<noteq> CHR ''='') p, drop 1 (dropWhile (\<lambda>c. c \<noteq> CHR ''='') p)))
        (split_on CHR ''&'' (url_query u))"

text \<open>
  What the HTTP library does with \<^verbatim>\<open>timeout=10.0\<close>, as its documentation gives it: the
  limit holds for each wait of an exchange by itself (for a free connection of the pool,
  for the connection to be made, for a part of the request to be written, for the next
  part of the reply to be read), and the first wait that exceeds it raises the timeout
  exception of its kind, each a subclass of \<^verbatim>\<open>httpx.TimeoutException\<close>.  An exchange is
  given by the waits it is made of, in order and in seconds, and by the reply of the
  upstream.
\<close>

datatype wait = Pool | Connect | Write | Read

fun timeout_name :: "wait \<Rightarrow> string" where
  "timeout_name Pool = ''PoolTimeout''"
| "timeout_name Connect = ''ConnectTimeout''"
| "timeout_name Write = ''WriteTimeout''"
| "timeout_name Read = ''ReadTimeout''"

record exchange =
  waits :: "(wait \<times> real) list"
  reply :: http_response

definition total_wait :: "exchange \<Rightarrow> real" where
  "total_wait x = sum_list (map snd (waits x))"

definition httpx_send :: "exchange \<Rightarrow> AsyncClient \<Rightarrow> http_request \<Rightarrow> exn + http_response" where
  "httpx_send x client q =
    (case find (\<lambda>w. timeout client < snd w) (waits x) of
       Some w \<Rightarrow> Inl (TimeoutException (timeout_name (fst w)))
     | None \<Rightarrow> Inr (reply x))"

text \<open>
  Two exchanges used as concrete inputs: one that takes 13 seconds in all with no wait
  above 6 seconds, and one whose reply stalls for 11 seconds.
\<close>

definition slow_exchange :: exchange where
  "slow_exchange =
    \<lparr>waits = [(Connect, 1), (Read, 6), (Read, 6)],
     reply = \<lparr>status_code = 200, response_text = ''{}''\<rparr>\<rparr>"

definition stalled_exchange :: exchange where
  "stalled_exchange =
    \<lparr>waits = [(Connect, 1), (Read, 11)],
     reply = \<lparr>status_code = 200, response_text = ''{}''\<rparr>\<rparr>"

section \<open>Facts about the embedding\<close>

lemma find_Some_holds: "find P xs = Some x \<Longrightarrow> P x \<and> x \<in> set xs"
  by (induction xs) (auto split: if_splits)

lemma httpx_send_limit:
  "httpx_send x \<lparr>timeout = 10\<rparr> q =
     (if list_ex (\<lambda>w. 10 < snd w) (waits x)
      then Inl (TimeoutException
                  (timeout_name (fst (the (find (\<lambda>w. 10 < snd w) (waits x))))))
      else Inr (reply x))"
  by (auto simp: httpx_send_def list_ex_iff find_None_iff split: option.splits
        dest: find_Some_holds)

lemma title_recognized:
  "title ''openai'' = ''Openai''" "title ''anthropic'' = ''Anthropic''"
  "title ''groq'' = ''Groq''" "title ''deepseek'' = ''Deepseek''"
  "title ''google'' = ''Google''" "title ''financial'' = ''Financial''"
  by code_simp+

lemma to_upper_initials:
  "to_upper CHR ''o'' = CHR ''O''" "to_upper CHR ''a'' = CHR ''A''"
  "to_upper CHR ''g'' = CHR ''G''" "to_upper CHR ''d'' = CHR ''D''"
  "to_upper CHR ''f'' = CHR ''F''"
  by code_simp+

lemma title_capitalizes:
  "provider request \<in> set recognized_providers \<Longrightarrow>
   title (provider request) = to_upper (hd (provider request)) # tl (provider request)"
  by (auto simp: recognized_providers_def title_recognized to_upper_initials)

lemma provider_request_recognized:
  "(\<exists>q. provider_request request = Inr q) \<longleftrightarrow> provider request \<in> set recognized_providers"
  by (auto simp: provider_request_def recognized_providers_def)

lemma provider_request_unrecognized:
  "provider request \<notin> set recognized_providers \<Longrightarrow>
   provider_request request =
     Inl (HTTPException 400 (''Unsupported provider: '' @ provider request))"
  by (auto simp: provider_request_def recognized_providers_def)

lemma sent_requests:
  "snd (test_api_key str_of send request) =
     (case provider_request request of
        Inl e \<Rightarrow> []
      | Inr q \<Rightarrow> [(\<lparr>timeout = 10\<rparr>, q)])"
  by (simp add: test_api_key_def Let_def split: sum.splits)

lemma test_api_key_reply:
  "provider_request request = Inr q \<Longrightarrow> send \<lparr>timeout = 10\<rparr> q = Inr response \<Longrightarrow>
   test_api_key str_of send request =
     (Inr (classify request response), [(\<lparr>timeout = 10\<rparr>, q)])"
  by (simp add: test_api_key_def)

lemma test_api_key_raise:
  "provider_request request = Inr q \<Longrightarrow> send \<lparr>timeout = 10\<rparr> q = Inl e \<Longrightarrow>
   test_api_key str_of send request =
     (except_clauses str_of request e, [(\<lparr>timeout = 10\<rparr>, q)])"
  by (simp add: test_api_key_def)

text \<open>
  What happens to every provider outside the six: the \<^verbatim>\<open>HTTPException\<close> with code 400 is
  raised inside the \<^verbatim>\<open>try\<close> block, no request has been sent, and the last \<^verbatim>\<open>except\<close>
  clause replaces it by one with code 500.
\<close>

lemma test_api_key_unrecognized:
  "provider request \<notin> set recognized_providers \<Longrightarrow>
   test_api_key str_of send request =
     (Inl (HTTPException 500 (''Unexpected error testing API key: '' @
             str_of (HTTPException 400 (''Unsupported provider: '' @ provider request)))),
      [])"
  by (simp add: test_api_key_def provider_request_unrecognized)

text \<open>
  What the presence report would be in a module that binds \<^verbatim>\<open>os\<close>: the six entries, each
  configured exactly when its variable is set to a non-empty value, \<^verbatim>\<open>openai\<close> alone
  required.
\<close>

lemma status_report_with_os_bound:
  "''os'' \<in> set globals \<Longrightarrow>
   get_api_key_status globals environ =
     Inr [(''openai'',
             \<lparr>configured = (\<exists>v. environ ''OPENAI_API_KEY'' = Some v \<and> v \<noteq> []),
              required = True\<rparr>),
          (''anthropic'',
             \<lparr>configured = (\<exists>v. environ ''ANTHROPIC_API_KEY'' = Some v \<and> v \<noteq> []),
              required = False\<rparr>),
          (''groq'',
             \<lparr>configured = (\<exists>v. environ ''GROQ_API_KEY'' = Some v \<and> v \<noteq> []),
              required = False\<rparr>),
          (''deepseek'',
             \<lparr>configured = (\<exists>v. environ ''DEEPSEEK_API_KEY'' = Some v \<and> v \<noteq> []),
              required = False\<rparr>),
          (''google'',
             \<lparr>configured = (\<exists>v. environ ''GOOGLE_API_KEY'' = Some v \<and> v \<noteq> []),
              required = False\<rparr>),
          (''financial'',
             \<lparr>configured = (\<exists>v. environ ''FINANCIAL_DATASETS_API_KEY'' = Some v \<and> v \<noteq> []),
              required = False\<rparr>)]"
  by (simp add: get_api_key_status_def getenv_bool_def split: option.splits)

section \<open>Unrecognised providers\<close>

text \<open>
  C1.  The specification has an unrecognised provider rejected with a 400 client error
  whose message names the provider.  The handler raises that error inside its own
  \<^verbatim>\<open>try\<close> block, where \<^verbatim>\<open>except Exception\<close> catches it: for the provider \<^verbatim>\<open>bogus\<close> the
  caller gets a 500 error that wraps the description of the 400 one, whatever the key,
  the endpoint field and the network.
\<close>

theorem unsupported_provider_answered_500:
  "fst (test_api_key str_of send \<lparr>provider = ''bogus'', apiKey = k, testEndpoint = t\<rparr>) =
     Inl (HTTPException 500 (''Unexpected error testing API key: '' @
            str_of (HTTPException 400 ''Unsupported provider: bogus'')))
   \<and> endpoint_status (fst (test_api_key str_of send
        \<lparr>provider = ''bogus'', apiKey = k, testEndpoint = t\<rparr>)) = 500"
  by (simp add: test_api_key_def provider_request_def)

section \<open>The presence report\<close>

text \<open>
  C2.  The specification has the presence report return the six entries with status 200.
  The module never imports \<^verbatim>\<open>os\<close>, so the report raises \<^verbatim>\<open>NameError\<close> before it reads the
  environment, here with \<^verbatim>\<open>OPENAI_API_KEY\<close> set, and the caller gets a 500 error.
\<close>

theorem status_report_raises_name_error:
  "get_api_key_status module_globals [''OPENAI_API_KEY'' \<mapsto> ''sk-test''] =
     Inl (NameError ''os'')
   \<and> endpoint_status
       (get_api_key_status module_globals [''OPENAI_API_KEY'' \<mapsto> ''sk-test'']) = 500"
  by (simp add: get_api_key_status_def module_globals_def)

section \<open>The api key and the result\<close>

text \<open>
  C3, as stated, fails.  The handler copies the text of the upstream reply into
  \<^verbatim>\<open>details\<close>; an upstream that answers 404 and repeats the URL it was asked for sends the
  key of a \<^verbatim>\<open>google\<close> probe back, and the key \<^verbatim>\<open>sk-test\<close> appears verbatim in the result.
\<close>

theorem api_key_echoed_by_upstream:
  "fst (test_api_key library_str url_echo_upstream
         \<lparr>provider = ''google'', apiKey = ''sk-test'', testEndpoint = ''''\<rparr>) =
     Inr \<lparr>success = False, message = ''API test failed for google'',
          details =
            [(''status_code'', DInt 404),
             (''error'', DStr (''Not found: '' @
                ''https://generativelanguage.googleapis.com/v1beta/models?key=sk-test''))]\<rparr>
   \<and> appears_in ''sk-test''
        \<lparr>success = False, message = ''API test failed for google'',
         details =
           [(''status_code'', DInt 404),
            (''error'', DStr (''Not found: '' @
               ''https://generativelanguage.googleapis.com/v1beta/models?key=sk-test''))]\<rparr>"
  by code_simp

text \<open>
  C3, amended.  The handler itself never puts the key into the result: what it returns
  (a result or an error) is fixed by the provider and by the outcome of the HTTP exchange
  (status code, body text, fault) alone, so any two requests with the same provider that
  meet the same outcome get the same answer, whatever their keys and endpoint fields.
\<close>

theorem probe_result_fixed_by_provider_and_outcome:
  assumes "provider request' = provider request"
  shows "fst (test_api_key str_of (fixed_upstream outcome) request') =
         fst (test_api_key str_of (fixed_upstream outcome) request)"
  using assms
  by (cases outcome; rename_tac x; case_tac x)
     (auto simp: test_api_key_def provider_request_def fixed_upstream_def classify_def)

theorem probe_result_fixed_by_provider_and_outcome_witness:
  "provider \<lparr>provider = ''openai'', apiKey = ''sk-other'', testEndpoint = ''https://x''\<rparr> =
   provider \<lparr>provider = ''openai'', apiKey = ''sk-test'', testEndpoint = ''''\<rparr>
   \<and> fst (test_api_key library_str
           (fixed_upstream (Inr \<lparr>status_code = 503, response_text = ''busy''\<rparr>))
           \<lparr>provider = ''openai'', apiKey = ''sk-other'', testEndpoint = ''https://x''\<rparr>) =
     fst (test_api_key library_str
           (fixed_upstream (Inr \<lparr>status_code = 503, response_text = ''busy''\<rparr>))
           \<lparr>provider = ''openai'', apiKey = ''sk-test'', testEndpoint = ''''\<rparr>)"
  using probe_result_fixed_by_provider_and_outcome
    [of "\<lparr>provider = ''openai'', apiKey = ''sk-other'', testEndpoint = ''https://x''\<rparr>"
        "\<lparr>provider = ''openai'', apiKey = ''sk-test'', testEndpoint = ''''\<rparr>"
        library_str "Inr \<lparr>status_code = 503, response_text = ''busy''\<rparr>"]
  by simp

section \<open>Classification of the reply\<close>

text \<open>
  C4.  For a recognised provider whose probe \<open>q\<close> is answered by a reply, the result
  depends on the status code alone: 200 gives success with the message
  \<open><Provider> API key is valid\<close>, the provider name in title case (its first letter in
  upper case), and the status code as the only detail; 401 and 403 give failure with the
  error \<open>Unauthorized\<close> and \<open>Forbidden\<close>; any other code gives failure with the message
  \<open>API test failed for <provider>\<close> and the body text of the reply as the error.
\<close>

theorem classification_by_status:
  assumes "provider request \<in> set recognized_providers"
    and "provider_request request = Inr q"
    and "send \<lparr>timeout = 10\<rparr> q = Inr response"
  shows "title (provider request) = to_upper (hd (provider request)) # tl (provider request)
    \<and> (status_code response = 200 \<longrightarrow>
         fst (test_api_key str_of send request) =
           Inr \<lparr>success = True,
                message = title (provider request) @ '' API key is valid'',
                details = [(''status_code'', DInt 200)]\<rparr>)
    \<and> (status_code response = 401 \<longrightarrow>
         fst (test_api_key str_of send request) =
           Inr \<lparr>success = False,
                message = ''Invalid API key for '' @ provider request,
                details = [(''status_code'', DInt 401), (''error'', DStr ''Unauthorized'')]\<rparr>)
    \<and> (status_code response = 403 \<longrightarrow>
         fst (test_api_key str_of send request) =
           Inr \<lparr>success = False,
                message = ''API key lacks required permissions for '' @ provider request,
                details = [(''status_code'', DInt 403), (''error'', DStr ''Forbidden'')]\<rparr>)
    \<and> (status_code response \<notin> {200, 401, 403} \<longrightarrow>
         fst (test_api_key str_of send request) =
           Inr \<lparr>success = False,
                message = ''API test failed for '' @ provider request,
                details = [(''status_code'', DInt (status_code response)),
                           (''error'', DStr (response_text response))]\<rparr>)"
proof -
  have r: "fst (test_api_key str_of send request) = Inr (classify request response)"
    using assms(2,3) by (simp add: test_api_key_reply)
  show ?thesis
    using assms(1) by (simp add: r classify_def title_capitalizes)
qed

theorem classification_by_status_witness:
  "''openai'' \<in> set recognized_providers
   \<and> provider_request \<lparr>provider = ''openai'', apiKey = ''sk-test'', testEndpoint = ''''\<rparr> =
       Inr \<lparr>http_method = GET, url = ''https://api.openai.com/v1/models'',
            headers = [(''Authorization'', ''Bearer sk-test''),
                       (''Content-Type'', ''application/json'')],
            json_body = None\<rparr>
   \<and> fst (test_api_key library_str
         (fixed_upstream (Inr \<lparr>status_code = 200, response_text = ''{}''\<rparr>))
         \<lparr>provider = ''openai'', apiKey = ''sk-test'', testEndpoint = ''''\<rparr>) =
       Inr \<lparr>success = True, message = ''Openai API key is valid'',
            details = [(''status_code'', DInt 200)]\<rparr>"
  using classification_by_status
    [of "\<lparr>provider = ''openai'', apiKey = ''sk-test'', testEndpoint = ''''\<rparr>"
        "\<lparr>http_method = GET, url = ''https://api.openai.com/v1/models'',
          headers = [(''Authorization'', ''Bearer sk-test''),
                     (''Content-Type'', ''application/json'')],
          json_body = None\<rparr>"
        "fixed_upstream (Inr \<lparr>status_code = 200, response_text = ''{}''\<rparr>)"
        "\<lparr>status_code = 200, response_text = ''{}''\<rparr>" library_str]
  by (simp add: provider_request_def fixed_upstream_def recognized_providers_def
        title_recognized)

section \<open>Timeouts and network faults\<close>

text \<open>
  C5, as stated, fails.  The 10 seconds the handler sets on the client bound each wait of
  the exchange, not their sum: an \<^verbatim>\<open>openai\<close> probe that connects in 1 second and then
  waits twice 6 seconds for the reply has waited 13 seconds in all and ends with the
  success result, not with a timeout.
\<close>

theorem slow_probe_not_timed_out:
  "total_wait slow_exchange = 13
   \<and> fst (test_api_key library_str (httpx_send slow_exchange)
          \<lparr>provider = ''openai'', apiKey = ''sk-test'', testEndpoint = ''''\<rparr>) =
       Inr \<lparr>success = True, message = ''Openai API key is valid'',
            details = [(''status_code'', DInt 200)]\<rparr>"
  by (simp add: total_wait_def slow_exchange_def test_api_key_def provider_request_def
        httpx_send_def classify_def title_recognized)

text \<open>
  C5, amended.  For a recognised provider with probe \<open>q\<close>: when awaiting it raises a
  timeout, the handler returns the result \<open>{success: false, message: "Timeout testing
  <provider> API key", details: {error: "Request timeout"}}\<close>, which the caller gets with
  status 200; and with the HTTP library applying the handler's limit, the probe ends in
  that result exactly when one single wait of the exchange lasts more than 10 seconds.
\<close>

theorem timeout_per_wait_structured_result:
  assumes "provider_request request = Inr q"
  shows "(send \<lparr>timeout = 10\<rparr> q = Inl (TimeoutException m) \<longrightarrow>
          test_api_key str_of send request =
            (Inr \<lparr>success = False,
                  message = ''Timeout testing '' @ provider request @ '' API key'',
                  details = [(''error'', DStr ''Request timeout'')]\<rparr>,
             [(\<lparr>timeout = 10\<rparr>, q)])
          \<and> endpoint_status (fst (test_api_key str_of send request)) = 200)
    \<and> (fst (test_api_key str_of (httpx_send x) request) =
          Inr \<lparr>success = False,
               message = ''Timeout testing '' @ provider request @ '' API key'',
               details = [(''error'', DStr ''Request timeout'')]\<rparr>
        \<longleftrightarrow> list_ex (\<lambda>w. 10 < snd w) (waits x))"
proof -
  have a: "send \<lparr>timeout = 10\<rparr> q = Inl (TimeoutException m) \<longrightarrow>
          test_api_key str_of send request =
            (Inr \<lparr>success = False,
                  message = ''Timeout testing '' @ provider request @ '' API key'',
                  details = [(''error'', DStr ''Request timeout'')]\<rparr>,
             [(\<lparr>timeout = 10\<rparr>, q)])
          \<and> endpoint_status (fst (test_api_key str_of send request)) = 200"
    using assms by (simp add: test_api_key_raise)
  have b: "fst (test_api_key str_of (httpx_send x) request) =
          Inr \<lparr>success = False,
               message = ''Timeout testing '' @ provider request @ '' API key'',
               details = [(''error'', DStr ''Request timeout'')]\<rparr>
        \<longleftrightarrow> list_ex (\<lambda>w. 10 < snd w) (waits x)"
  proof (cases "list_ex (\<lambda>w. 10 < snd w) (waits x)")
    case True
    then show ?thesis
      using test_api_key_raise [OF assms, of "httpx_send x" _ str_of]
      by (simp add: httpx_send_limit)
  next
    case False
    then show ?thesis
      using test_api_key_reply [OF assms, of "httpx_send x" "reply x" str_of]
      by (simp add: httpx_send_limit classify_def)
  qed
  show ?thesis
    using a b by blast
qed

theorem timeout_per_wait_structured_result_witness:
  "provider_request \<lparr>provider = ''groq'', apiKey = ''gsk-test'', testEndpoint = ''''\<rparr> =
     Inr \<lparr>http_method = GET, url = ''https://api.groq.com/openai/v1/models'',
          headers = [(''Authorization'', ''Bearer gsk-test''),
                     (''Content-Type'', ''application/json'')],
          json_body = None\<rparr>
   \<and> list_ex (\<lambda>w. 10 < snd w) (waits stalled_exchange)
   \<and> fst (test_api_key library_str (httpx_send stalled_exchange)
       \<lparr>provider = ''groq'', apiKey = ''gsk-test'', testEndpoint = ''''\<rparr>) =
     Inr \<lparr>success = False, message = ''Timeout testing groq API key'',
          details = [(''error'', DStr ''Request timeout'')]\<rparr>"
  using timeout_per_wait_structured_result
    [of "\<lparr>provider = ''groq'', apiKey = ''gsk-test'', testEndpoint = ''''\<rparr>"
        "\<lparr>http_method = GET, url = ''https://api.groq.com/openai/v1/models'',
          headers = [(''Authorization'', ''Bearer gsk-test''),
                     (''Content-Type'', ''application/json'')],
          json_body = None\<rparr>"
        "httpx_send stalled_exchange" "''ReadTimeout''" library_str stalled_exchange]
  by (simp add: provider_request_def stalled_exchange_def)

text \<open>
  C6.  For a recognised provider with probe \<open>q\<close>: a network fault that is not a timeout
  gives the result \<open>{success: false, message: "Network error testing <provider> API key",
  details: {error: <description of the fault>}}\<close>; and each anticipated failure (a reply
  with a status other than 200, a timeout, a network fault) ends in a returned result with
  \<open>success = false\<close>, never in a raised error.
\<close>

theorem network_fault_structured_result:
  assumes "provider_request request = Inr q"
  shows "(send \<lparr>timeout = 10\<rparr> q = Inl (RequestError m) \<longrightarrow>
           fst (test_api_key str_of send request) =
             Inr \<lparr>success = False,
                  message = ''Network error testing '' @ provider request @ '' API key'',
                  details = [(''error'', DStr (str_of (RequestError m)))]\<rparr>)
    \<and> ((\<exists>response. send \<lparr>timeout = 10\<rparr> q = Inr response \<and> status_code response \<noteq> 200)
        \<or> (\<exists>m'. send \<lparr>timeout = 10\<rparr> q = Inl (TimeoutException m'))
        \<or> (\<exists>m'. send \<lparr>timeout = 10\<rparr> q = Inl (RequestError m')) \<longrightarrow>
        (\<exists>res. fst (test_api_key str_of send request) = Inr res \<and> \<not> success res)
        \<and> endpoint_status (fst (test_api_key str_of send request)) = 200)"
  using assms by (auto simp: test_api_key_raise test_api_key_reply classify_def)

theorem network_fault_structured_result_witness:
  "provider_request \<lparr>provider = ''deepseek'', apiKey = ''ds-test'', testEndpoint = ''''\<rparr> =
     Inr \<lparr>http_method = GET, url = ''https://api.deepseek.com/v1/models'',
          headers = [(''Authorization'', ''Bearer ds-test''),
                     (''Content-Type'', ''application/json'')],
          json_body = None\<rparr>
   \<and> fst (test_api_key library_str
         (fixed_upstream (Inl (RequestError ''All connection attempts failed'')))
         \<lparr>provider = ''deepseek'', apiKey = ''ds-test'', testEndpoint = ''''\<rparr>) =
     Inr \<lparr>success = False, message = ''Network error testing deepseek API key'',
          details = [(''error'', DStr ''All connection attempts failed'')]\<rparr>"
  using network_fault_structured_result
    [of "\<lparr>provider = ''deepseek'', apiKey = ''ds-test'', testEndpoint = ''''\<rparr>"
        "\<lparr>http_method = GET, url = ''https://api.deepseek.com/v1/models'',
          headers = [(''Authorization'', ''Bearer ds-test''),
                     (''Content-Type'', ''application/json'')],
          json_body = None\<rparr>"
        "fixed_upstream (Inl (RequestError ''All connection attempts failed''))"
        "''All connection attempts failed''" library_str]
  by (simp add: provider_request_def fixed_upstream_def)

section \<open>The requests sent\<close>

text \<open>
  C7.  For each of the six recognised providers the handler sends the request of the
  table: \<^verbatim>\<open>openai\<close>, \<^verbatim>\<open>groq\<close> and \<^verbatim>\<open>deepseek\<close> a GET to their models URL with the
  header \<open>Authorization: Bearer <key>\<close> and no body; \<^verbatim>\<open>anthropic\<close> a POST to its messages
  URL with the headers \<open>x-api-key: <key>\<close> and \<open>anthropic-version: 2023-06-01\<close> and the fixed
  JSON body; \<^verbatim>\<open>google\<close> a GET with the key in the query string and no header;
  \<^verbatim>\<open>financial\<close> a GET with the header \<open>X-API-KEY: <key>\<close>.  Beside the headers of the
  table, the four requests with an \<^verbatim>\<open>Authorization\<close> or \<^verbatim>\<open>x-api-key\<close> header carry
  \<open>Content-Type: application/json\<close>.
\<close>

theorem probe_requests_as_tabulated:
  "snd (test_api_key str_of send \<lparr>provider = ''openai'', apiKey = k, testEndpoint = t\<rparr>) =
     [(\<lparr>timeout = 10\<rparr>,
       \<lparr>http_method = GET, url = ''https://api.openai.com/v1/models'',
        headers = [(''Authorization'', ''Bearer '' @ k),
                   (''Content-Type'', ''application/json'')],
        json_body = None\<rparr>)]
   \<and> snd (test_api_key str_of send
          \<lparr>provider = ''anthropic'', apiKey = k, testEndpoint = t\<rparr>) =
     [(\<lparr>timeout = 10\<rparr>,
       \<lparr>http_method = POST, url = ''https://api.anthropic.com/v1/messages'',
        headers = [(''x-api-key'', k), (''Content-Type'', ''application/json''),
                   (''anthropic-version'', ''2023-06-01'')],
        json_body = Some (JObject
          [(''model'', JStr ''claude-3-haiku-20240307''), (''max_tokens'', JInt 1),
           (''messages'', JArray [JObject [(''role'', JStr ''user''),
                                           (''content'', JStr ''Hi'')]])])\<rparr>)]
   \<and> snd (test_api_key str_of send \<lparr>provider = ''groq'', apiKey = k, testEndpoint = t\<rparr>) =
     [(\<lparr>timeout = 10\<rparr>,
       \<lparr>http_method = GET, url = ''https://api.groq.com/openai/v1/models'',
        headers = [(''Authorization'', ''Bearer '' @ k),
                   (''Content-Type'', ''application/json'')],
        json_body = None\<rparr>)]
   \<and> snd (test_api_key str_of send
          \<lparr>provider = ''deepseek'', apiKey = k, testEndpoint = t\<rparr>) =
     [(\<lparr>timeout = 10\<rparr>,
       \<lparr>http_method = GET, url = ''https://api.deepseek.com/v1/models'',
        headers = [(''Authorization'', ''Bearer '' @ k),
                   (''Content-Type'', ''application/json'')],
        json_body = None\<rparr>)]
   \<and> snd (test_api_key str_of send \<lparr>provider = ''google'', apiKey = k, testEndpoint = t\<rparr>) =
     [(\<lparr>timeout = 10\<rparr>,
       \<lparr>http_method = GET,
        url = ''https://generativelanguage.googleapis.com/v1beta/models?key='' @ k,
        headers = [], json_body = None\<rparr>)]
   \<and> snd (test_api_key str_of send
          \<lparr>provider = ''financial'', apiKey = k, testEndpoint = t\<rparr>) =
     [(\<lparr>timeout = 10\<rparr>,
       \<lparr>http_method = GET,
        url = ''https://api.financialdatasets.ai/company/facts/?ticker=AAPL'',
        headers = [(''X-API-KEY'', k)], json_body = None\<rparr>)]"
  by (simp add: sent_requests provider_request_def)

text \<open>
  C8, as stated, fails: for the unrecognised provider \<^verbatim>\<open>bogus\<close> the handler raises before
  it reaches the client; the client is never called and no request leaves.
\<close>

theorem unsupported_provider_no_request:
  "length (snd (test_api_key library_str url_echo_upstream
             \<lparr>provider = ''bogus'', apiKey = ''sk-test'', testEndpoint = ''''\<rparr>)) = 0"
  by (simp add: sent_requests provider_request_def)

text \<open>
  C8, amended.  Whatever the outcome, the handler calls the HTTP client exactly once when
  the provider is one of the six and never otherwise, and it never calls it a second
  time.  Whichever of its calls the library turns into a request on the wire
  (\<open>transmitted\<close>; it refuses some before sending), at most one request leaves.
\<close>

theorem one_client_call_iff_recognized:
  "length (snd (test_api_key str_of send request)) =
     (if provider request \<in> set recognized_providers then 1 else 0)
   \<and> length (filter transmitted (snd (test_api_key str_of send request))) \<le> 1"
  by (auto simp: sent_requests provider_request_def recognized_providers_def)

theorem one_client_call_iff_recognized_witness:
  "''financial'' \<in> set recognized_providers
   \<and> length (snd (test_api_key library_str
        (fixed_upstream (Inl (RequestError ''All connection attempts failed'')))
        \<lparr>provider = ''financial'', apiKey = ''fd-test'', testEndpoint = ''''\<rparr>)) = 1"
  using one_client_call_iff_recognized
    [of library_str "fixed_upstream (Inl (RequestError ''All connection attempts failed''))"
        "\<lparr>provider = ''financial'', apiKey = ''fd-test'', testEndpoint = ''''\<rparr>"]
  by (simp add: recognized_providers_def)

text \<open>
  C9.  The \<^verbatim>\<open>google\<close> probe has the key appended as it is to the text
  \<open>...models?key=\<close> and carries no header.  So the query string is not always the single
  parameter \<open>key=<apiKey>\<close>: the key \<open>k1&alt=json\<close> gives the two parameters \<open>key=k1\<close> and
  \<open>alt=json\<close>, and of the key \<open>k1#k2\<close> only \<open>k1\<close> is left in the query.
\<close>

theorem google_key_not_escaped:
  "snd (test_api_key str_of send \<lparr>provider = ''google'', apiKey = k, testEndpoint = t\<rparr>) =
     [(\<lparr>timeout = 10\<rparr>,
       \<lparr>http_method = GET,
        url = ''https://generativelanguage.googleapis.com/v1beta/models?key='' @ k,
        headers = [], json_body = None\<rparr>)]
   \<and> map (query_params \<circ> url \<circ> snd)
        (snd (test_api_key str_of send
               \<lparr>provider = ''google'', apiKey = ''k1&alt=json'', testEndpoint = t\<rparr>)) =
     [[(''key'', ''k1''), (''alt'', ''json'')]]
   \<and> map (query_params \<circ> url \<circ> snd)
        (snd (test_api_key str_of send
               \<lparr>provider = ''google'', apiKey = ''k1#k2'', testEndpoint = t\<rparr>)) =
     [[(''key'', ''k1'')]]
   \<and> (\<exists>k'. map (query_params \<circ> url \<circ> snd)
        (snd (test_api_key str_of send
               \<lparr>provider = ''google'', apiKey = k', testEndpoint = t\<rparr>)) \<noteq> [[(''key'', k')]])"
proof -
  have u: "snd (test_api_key str_of send
                 \<lparr>provider = ''google'', apiKey = k', testEndpoint = t\<rparr>) =
     [(\<lparr>timeout = 10\<rparr>,
       \<lparr>http_method = GET,
        url = ''https://generativelanguage.googleapis.com/v1beta/models?key='' @ k',
        headers = [], json_body = None\<rparr>)]" for k'
    by (simp add: sent_requests provider_request_def)
  have a: "query_params
      ''https://generativelanguage.googleapis.com/v1beta/models?key=k1&alt=json''
      = [(''key'', ''k1''), (''alt'', ''json'')]"
    by code_simp
  have b: "query_params ''https://generativelanguage.googleapis.com/v1beta/models?key=k1#k2''
      = [(''key'', ''k1'')]"
    by code_simp
  have c: "\<exists>k'. map (query_params \<circ> url \<circ> snd)
        (snd (test_api_key str_of send
               \<lparr>provider = ''google'', apiKey = k', testEndpoint = t\<rparr>)) \<noteq> [[(''key'', k')]]"
    by (rule exI [of _ "''k1#k2''"]) (simp add: u b)
  show ?thesis
    using c by (simp add: u a b)
qed

section \<open>Success and the error entry\<close>

text \<open>
  C10.  In every result the handler returns, \<open>success\<close> is true exactly when \<open>details\<close>
  has no \<open>error\<close> key: the details of a success are the status code alone, and every
  failure (401, 403, another status, a timeout, a network fault) has an \<open>error\<close> entry.
\<close>

theorem success_iff_no_error_entry:
  assumes "fst (test_api_key str_of send request) = Inr res"
  shows "(success res \<longleftrightarrow> ''error'' \<notin> fst ` set (details res))
    \<and> (success res \<longrightarrow> details res = [(''status_code'', DInt 200)])
    \<and> (\<not> success res \<longrightarrow> ''error'' \<in> fst ` set (details res))"
proof (cases "provider_request request")
  case (Inl e)
  then have "provider request \<notin> set recognized_providers"
    using provider_request_recognized [of request] by auto
  with assms show ?thesis
    by (simp add: test_api_key_unrecognized)
next
  case (Inr q)
  show ?thesis
  proof (cases "send \<lparr>timeout = 10\<rparr> q")
    case (Inl e)
    with Inr assms show ?thesis
      by (cases e) (auto simp: test_api_key_raise)
  next
    case r: (Inr response)
    with Inr assms have "res = classify request response"
      by (simp add: test_api_key_reply)
    then show ?thesis
      by (auto simp: classify_def)
  qed
qed

theorem success_iff_no_error_entry_witness:
  "fst (test_api_key library_str
         (fixed_upstream (Inr \<lparr>status_code = 401, response_text = ''bad''\<rparr>))
         \<lparr>provider = ''anthropic'', apiKey = ''bad'', testEndpoint = ''''\<rparr>) =
     Inr \<lparr>success = False, message = ''Invalid API key for anthropic'',
          details = [(''status_code'', DInt 401), (''error'', DStr ''Unauthorized'')]\<rparr>
   \<and> \<not> success \<lparr>success = False, message = ''Invalid API key for anthropic'',
              details = [(''status_code'', DInt 401), (''error'', DStr ''Unauthorized'')]\<rparr>
   \<and> ''error'' \<in> fst ` set (details
       \<lparr>success = False, message = ''Invalid API key for anthropic'',
        details = [(''status_code'', DInt 401), (''error'', DStr ''Unauthorized'')]\<rparr>)"
  using success_iff_no_error_entry
    [of library_str "fixed_upstream (Inr \<lparr>status_code = 401, response_text = ''bad''\<rparr>)"
        "\<lparr>provider = ''anthropic'', apiKey = ''bad'', testEndpoint = ''''\<rparr>"
        "\<lparr>success = False, message = ''Invalid API key for anthropic'',
          details = [(''status_code'', DInt 401), (''error'', DStr ''Unauthorized'')]\<rparr>"]
  by (simp add: test_api_key_def provider_request_def fixed_upstream_def classify_def)

end
